theory Spec2Isabelle
  imports Complex_Main
begin

section \<open>JSON values and Python exceptions\<close>

text \<open>
  The handlers of \<^verbatim>\<open>server/app.py\<close> read the request body with
  \<^verbatim>\<open>request.get_json()\<close> and answer with \<^verbatim>\<open>jsonify\<close>. A parsed body is any
  JSON value; Python keeps whatever value was assigned to an attribute, so the fields of a
  Plant hold JSON values too. An integer and a float are separate Python types; a float is
  carried as the rational it denotes (the service stores and returns numbers, it never
  computes with them).
\<close>

datatype json =
    JNull
  | JBool bool
  | JInt int
  | JFloat rat
  | JStr string
  | JArr "json list"
  | JObj "(string \<times> json) list"

text \<open>
  A Python dict is an association list in insertion order. A repeated key stands for a
  later assignment to the same key, so a lookup takes the last binding.
\<close>

type_synonym pydict = "(string \<times> json) list"

definition dict_get :: "pydict \<Rightarrow> string \<Rightarrow> json option" where
  "dict_get d k = map_of (rev d) k"

datatype exn =
    KeyError string
  | TypeError string
  | AttributeError string
  | BadRequest
  | IntegrityError string
  | OverflowError string
  | InterfaceError string
  | StatementError string

definition quoted :: "string \<Rightarrow> string" where
  "quoted s = [CHR 0x27] @ s @ [CHR 0x27]"

fun type_name :: "json \<Rightarrow> string" where
  "type_name JNull = ''NoneType''"
| "type_name (JBool b) = ''bool''"
| "type_name (JInt n) = ''int''"
| "type_name (JFloat q) = ''float''"
| "type_name (JStr s) = ''str''"
| "type_name (JArr xs) = ''list''"
| "type_name (JObj d) = ''dict''"

text \<open>\<^verbatim>\<open>str(e)\<close>: the free-text message of an exception.\<close>

fun str_exn :: "exn \<Rightarrow> string" where
  "str_exn (KeyError k) = quoted k"
| "str_exn (TypeError m) = m"
| "str_exn (AttributeError m) = m"
| "str_exn BadRequest = ''400 Bad Request: The browser (or proxy) sent a request that this server could not understand.''"
| "str_exn (IntegrityError m) = m"
| "str_exn (OverflowError m) = m"
| "str_exn (InterfaceError m) = m"
| "str_exn (StatementError m) = m"

text \<open>
  \<^verbatim>\<open>request.get_json()\<close>: \<open>None\<close> is a request whose body cannot be read as JSON, on
  which the call raises; \<open>Some v\<close> is a body that parses to \<open>v\<close>.
\<close>

definition get_json :: "json option \<Rightarrow> exn + json" where
  "get_json req = (case req of None \<Rightarrow> Inl BadRequest | Some v \<Rightarrow> Inr v)"

text \<open>\<^verbatim>\<open>data[key]\<close> with a string key.\<close>

fun getitem :: "json \<Rightarrow> string \<Rightarrow> exn + json" where
  "getitem (JObj d) k = (case dict_get d k of None \<Rightarrow> Inl (KeyError k) | Some v \<Rightarrow> Inr v)"
| "getitem (JArr xs) k = Inl (TypeError ''list indices must be integers or slices, not str'')"
| "getitem (JStr s) k = Inl (TypeError ''string indices must be integers'')"
| "getitem v k = Inl (TypeError (quoted (type_name v) @ '' object is not subscriptable''))"

text \<open>\<^verbatim>\<open>data.get(key, default)\<close>.\<close>

fun get_default :: "json \<Rightarrow> string \<Rightarrow> json \<Rightarrow> exn + json" where
  "get_default (JObj d) k dflt = Inr (case dict_get d k of None \<Rightarrow> dflt | Some v \<Rightarrow> v)"
| "get_default v k dflt =
     Inl (AttributeError (quoted (type_name v) @ '' object has no attribute '' @ quoted ''get''))"

text \<open>\<^verbatim>\<open>data.items()\<close>.\<close>

fun items :: "json \<Rightarrow> exn + pydict" where
  "items (JObj d) = Inr d"
| "items v =
     Inl (AttributeError (quoted (type_name v) @ '' object has no attribute '' @ quoted ''items''))"

section \<open>The Plant entity and its table\<close>

text \<open>
  Modelled from the spec: the module \<^verbatim>\<open>models.py\<close> (\<^verbatim>\<open>db\<close>, \<^verbatim>\<open>Plant\<close>) is not
  part of the sources at hand. The spec gives the entity five attributes, \<^verbatim>\<open>id\<close>,
  \<^verbatim>\<open>name\<close>, \<^verbatim>\<open>image\<close>, \<^verbatim>\<open>price\<close> and \<^verbatim>\<open>is_in_stock\<close>, no validation beyond
  what the storage layer enforces implicitly, and a dictionary form with exactly these
  keys. The fields carry the suffix \<open>_col\<close> because \<open>id\<close> and \<open>image\<close> are
  constants of HOL.
\<close>

record plant =
  id_col :: json
  name_col :: json
  image_col :: json
  price_col :: json
  is_in_stock_col :: json

text \<open>Modelled from the spec: the constructor call
  \<^verbatim>\<open>Plant(name=.., image=.., price=.., is_in_stock=..)\<close> of the absent class; the
  identifier is unset until the row is inserted.\<close>

definition Plant :: "json \<Rightarrow> json \<Rightarrow> json \<Rightarrow> json \<Rightarrow> plant" where
  "Plant n im pr st =
     \<lparr>id_col = JNull, name_col = n, image_col = im, price_col = pr, is_in_stock_col = st\<rparr>"

text \<open>Modelled from the spec: the serialization method \<^verbatim>\<open>to_dict\<close> of the absent
  class, which gives the dictionary form
  \<^verbatim>\<open>{"id": .., "name": .., "image": .., "price": .., "is_in_stock": ..}\<close>.\<close>

definition to_dict :: "plant \<Rightarrow> json" where
  "to_dict p = JObj [(''id'', id_col p), (''name'', name_col p), (''image'', image_col p),
                     (''price'', price_col p), (''is_in_stock'', is_in_stock_col p)]"

text \<open>
  Modelled from the spec: \<^verbatim>\<open>hasattr(plant, key)\<close> on an object of the absent class.
  Its attributes are the five columns of the data model and what the class and Python
  add to them. Of the latter the model lists those that the source shows: the method
  \<^verbatim>\<open>to_dict\<close> and the class attribute \<^verbatim>\<open>query\<close>, both used in
  \<^verbatim>\<open>server/app.py\<close>, and \<^verbatim>\<open>__class__\<close>, which every Python object has.
\<close>

definition columns :: "string list" where
  "columns = [''id'', ''name'', ''image'', ''price'', ''is_in_stock'']"

definition other_attrs :: "string list" where
  "other_attrs = [''to_dict'', ''query'', ''__class__'']"

definition hasattr :: "string \<Rightarrow> bool" where
  "hasattr key \<longleftrightarrow> key \<in> set columns \<or> key \<in> set other_attrs"

text \<open>
  Modelled from the spec: \<^verbatim>\<open>setattr(plant, key, value)\<close>. A column takes the value
  as it is (it is checked when it is written to the store). A JSON value is no class, so
  the assignment to \<^verbatim>\<open>__class__\<close> raises. An assignment to \<^verbatim>\<open>to_dict\<close> or
  \<^verbatim>\<open>query\<close> sets an attribute of the object only and touches no column.
\<close>

definition setattr :: "plant \<Rightarrow> string \<Rightarrow> json \<Rightarrow> exn + plant" where
  "setattr p key v =
     (if key = ''id'' then Inr (p\<lparr>id_col := v\<rparr>)
      else if key = ''name'' then Inr (p\<lparr>name_col := v\<rparr>)
      else if key = ''image'' then Inr (p\<lparr>image_col := v\<rparr>)
      else if key = ''price'' then Inr (p\<lparr>price_col := v\<rparr>)
      else if key = ''is_in_stock'' then Inr (p\<lparr>is_in_stock_col := v\<rparr>)
      else if key = ''__class__''
      then Inl (TypeError (''__class__ must be set to a class, not '' @ quoted (type_name v)
                  @ '' object''))
      else Inr p)"

text \<open>
  Modelled from the spec: the persistence access (find all, find by identifier, insert,
  delete, commit) belongs to the external relational mapper. The table is the list of its
  rows in the order the store returns them; \<^verbatim>\<open>id\<close> is its integer primary key.
\<close>

type_synonym store = "plant list"

text \<open>Modelled from the spec: \<^verbatim>\<open>Plant.query.all()\<close>, find all.\<close>

definition query_all :: "store \<Rightarrow> plant list" where
  "query_all s = s"

text \<open>Modelled from the spec: \<^verbatim>\<open>Plant.query.filter_by(id=id).first()\<close>, find by
  identifier, for an identifier that the store can bind (a signed 64-bit integer). For
  any other the call raises; that is part of \<open>serve\<close> below.\<close>

definition query_first :: "int \<Rightarrow> store \<Rightarrow> plant option" where
  "query_first i s = find (\<lambda>p. id_col p = JInt i) s"

text \<open>Modelled from the spec: the integer identifiers held in the table.\<close>

fun int_ids :: "store \<Rightarrow> int list" where
  "int_ids [] = []"
| "int_ids (p # ps) = (case id_col p of JInt n \<Rightarrow> n # int_ids ps | _ \<Rightarrow> int_ids ps)"

text \<open>Modelled from the spec: the new unique identifier that the store assigns to an
  inserted row, here one more than the largest identifier in the table, and 1 in an empty
  table (the first record of the example scenario has the id 1).\<close>

definition next_id :: "store \<Rightarrow> int" where
  "next_id s = (case int_ids s of [] \<Rightarrow> 1 | n # ns \<Rightarrow> fold max ns n + 1)"

text \<open>
  Modelled from the spec: what the storage layer enforces implicitly on the values it is
  given (wrong field types are a storage error). The store binds signed 64-bit integers,
  floats, strings, booleans and null; an array or an object cannot be bound.
\<close>

definition sqlite_int :: "int \<Rightarrow> bool" where
  "sqlite_int i \<longleftrightarrow> - (2 ^ 63) \<le> i \<and> i < 2 ^ 63"

function dec_nat :: "nat \<Rightarrow> string" where
  "dec_nat n =
     (if n < 10 then [char_of (48 + n)] else dec_nat (n div 10) @ [char_of (48 + n mod 10)])"
  by pat_completeness auto
termination
  by (relation "measure (\<lambda>n. n)") auto

declare dec_nat.simps [simp del]

definition decimal :: "int \<Rightarrow> string" where
  "decimal n = (if n < 0 then CHR ''-'' # dec_nat (nat (- n)) else dec_nat (nat n))"

text \<open>
  Modelled from the spec: an integer stored in the numeric column \<^verbatim>\<open>price\<close> becomes
  a double. Up to 53 significant bits are kept; the bits below are rounded to nearest,
  ties to even. \<open>shift_for\<close> counts the bits to drop.
\<close>

function shift_for :: "nat \<Rightarrow> nat" where
  "shift_for m = (if m < 2 ^ 53 then 0 else Suc (shift_for (m div 2)))"
  by pat_completeness auto
termination
  by (relation "measure (\<lambda>m. m)") auto

declare shift_for.simps [simp del]

definition double_of_int :: "int \<Rightarrow> rat" where
  "double_of_int n =
     (let m = nat \<bar>n\<bar>;
          e = shift_for m;
          q = m div 2 ^ e;
          r = m mod 2 ^ e;
          q' = (if 2 * r > 2 ^ e \<or> (2 * r = 2 ^ e \<and> odd q) then q + 1 else q)
      in of_int (sgn n) * of_nat (q' * 2 ^ e))"

text \<open>Modelled from the spec: binding a value to a text column (\<^verbatim>\<open>name\<close>,
  \<^verbatim>\<open>image\<close>). A number is kept as its text; the text of a float is not modelled and
  the float is kept as it is.\<close>

fun bind_text :: "json \<Rightarrow> exn + json" where
  "bind_text (JStr s) = Inr (JStr s)"
| "bind_text JNull = Inr JNull"
| "bind_text (JInt n) =
     (if sqlite_int n then Inr (JStr (decimal n))
      else Inl (OverflowError ''Python int too large to convert to SQLite INTEGER''))"
| "bind_text (JBool b) = Inr (JStr (if b then ''1'' else ''0''))"
| "bind_text (JFloat q) = Inr (JFloat q)"
| "bind_text v =
     Inl (InterfaceError (''Error binding parameter: type '' @ quoted (type_name v)
            @ '' is not supported''))"

text \<open>Modelled from the spec: binding a value to the numeric column \<^verbatim>\<open>price\<close>;
  a string is stored as it is.\<close>

fun bind_real :: "json \<Rightarrow> exn + json" where
  "bind_real (JFloat q) = Inr (JFloat q)"
| "bind_real (JInt n) =
     (if sqlite_int n then Inr (JFloat (double_of_int n))
      else Inl (OverflowError ''Python int too large to convert to SQLite INTEGER''))"
| "bind_real (JBool b) = Inr (JFloat (if b then 1 else 0))"
| "bind_real JNull = Inr JNull"
| "bind_real (JStr s) = Inr (JStr s)"
| "bind_real v =
     Inl (InterfaceError (''Error binding parameter: type '' @ quoted (type_name v)
            @ '' is not supported''))"

text \<open>Modelled from the spec: binding a value to the boolean column
  \<^verbatim>\<open>is_in_stock\<close>, which takes a boolean, null, 0 or 1.\<close>

fun bind_bool :: "json \<Rightarrow> exn + json" where
  "bind_bool (JBool b) = Inr (JBool b)"
| "bind_bool JNull = Inr JNull"
| "bind_bool (JInt n) =
     (if n = 0 then Inr (JBool False) else if n = 1 then Inr (JBool True)
      else Inl (StatementError ''Value is not None, True, or False''))"
| "bind_bool v = Inl (StatementError ''Not a boolean value'')"

text \<open>Modelled from the spec: \<^verbatim>\<open>db.session.add(new_plant); db.session.commit()\<close>, the
  insert. Each value is bound to its column; when one cannot be bound the commit raises
  and nothing is stored. Otherwise the row is appended under a new identifier, and the
  object carries the identifier and the values as stored.\<close>

definition add_commit :: "plant \<Rightarrow> store \<Rightarrow> exn + plant \<times> store" where
  "add_commit p s =
     (case bind_text (name_col p) of Inl e \<Rightarrow> Inl e | Inr n \<Rightarrow>
      case bind_text (image_col p) of Inl e \<Rightarrow> Inl e | Inr im \<Rightarrow>
      case bind_real (price_col p) of Inl e \<Rightarrow> Inl e | Inr pr \<Rightarrow>
      case bind_bool (is_in_stock_col p) of Inl e \<Rightarrow> Inl e | Inr st \<Rightarrow>
        (let p' = \<lparr>id_col = JInt (next_id s), name_col = n, image_col = im,
                     price_col = pr, is_in_stock_col = st\<rparr>
         in Inr (p', s @ [p'])))"

text \<open>
  Modelled from the spec: binding a value to the integer primary key \<^verbatim>\<open>id\<close>. The
  store takes a signed 64-bit integer, and what it converts to one: a boolean, a float
  without fraction, a string of decimal digits.
\<close>

definition is_digit :: "char \<Rightarrow> bool" where
  "is_digit c \<longleftrightarrow> 48 \<le> (of_char c :: nat) \<and> (of_char c :: nat) \<le> 57"

definition digits_value :: "string \<Rightarrow> int" where
  "digits_value ds = foldl (\<lambda>a c. 10 * a + (int (of_char c) - 48)) 0 ds"

fun parse_int :: "string \<Rightarrow> int option" where
  "parse_int [] = None"
| "parse_int (c # cs) =
     (if c = CHR ''-''
      then (if cs \<noteq> [] \<and> list_all is_digit cs then Some (- digits_value cs) else None)
      else if list_all is_digit (c # cs) then Some (digits_value (c # cs)) else None)"

definition bind_int :: "int \<Rightarrow> exn + json" where
  "bind_int n =
     (if sqlite_int n then Inr (JInt n)
      else Inl (OverflowError ''Python int too large to convert to SQLite INTEGER''))"

fun bind_id :: "json \<Rightarrow> exn + json" where
  "bind_id (JInt n) = bind_int n"
| "bind_id (JBool b) = Inr (JInt (if b then 1 else 0))"
| "bind_id (JFloat q) =
     (if of_int \<lfloor>q\<rfloor> = q then bind_int \<lfloor>q\<rfloor> else Inl (IntegrityError ''datatype mismatch''))"
| "bind_id (JStr s) =
     (case parse_int s of
        None \<Rightarrow> Inl (IntegrityError ''datatype mismatch'')
      | Some n \<Rightarrow> if sqlite_int n then Inr (JInt n) else Inl (IntegrityError ''datatype mismatch''))"
| "bind_id JNull = Inl (IntegrityError ''NOT NULL constraint failed: plants.id'')"
| "bind_id v =
     Inl (InterfaceError (''Error binding parameter: type '' @ quoted (type_name v)
            @ '' is not supported''))"

text \<open>
  Modelled from the spec: \<^verbatim>\<open>db.session.commit()\<close> after attribute assignments to a
  loaded object, the update. It is one UPDATE that sets the columns whose value changed,
  in the rows with the primary key the object was loaded under. Each changed value is
  bound to its column, and a changed identifier must be one that no row holds; otherwise
  the commit raises (a storage constraint violation) and nothing is written. The object
  carries the values as stored afterwards. The text of a storage error names the driver's
  message only; the mapper wraps it with the statement and its parameters.
\<close>

definition write_changes :: "plant \<Rightarrow> plant \<Rightarrow> plant \<Rightarrow> plant" where
  "write_changes old new q =
     \<lparr>id_col = (if id_col new = id_col old then id_col q else id_col new),
      name_col = (if name_col new = name_col old then name_col q else name_col new),
      image_col = (if image_col new = image_col old then image_col q else image_col new),
      price_col = (if price_col new = price_col old then price_col q else price_col new),
      is_in_stock_col =
        (if is_in_stock_col new = is_in_stock_col old then is_in_stock_col q
         else is_in_stock_col new)\<rparr>"

definition bind_changed :: "(json \<Rightarrow> exn + json) \<Rightarrow> json \<Rightarrow> json \<Rightarrow> exn + json" where
  "bind_changed bind old_v new_v = (if new_v = old_v then Inr old_v else bind new_v)"

definition bind_changes :: "plant \<Rightarrow> plant \<Rightarrow> exn + plant" where
  "bind_changes old new =
     (case bind_changed bind_id (id_col old) (id_col new) of Inl e \<Rightarrow> Inl e | Inr i \<Rightarrow>
      case bind_changed bind_text (name_col old) (name_col new) of Inl e \<Rightarrow> Inl e | Inr n \<Rightarrow>
      case bind_changed bind_text (image_col old) (image_col new) of Inl e \<Rightarrow> Inl e | Inr im \<Rightarrow>
      case bind_changed bind_real (price_col old) (price_col new) of Inl e \<Rightarrow> Inl e | Inr pr \<Rightarrow>
      case bind_changed bind_bool (is_in_stock_col old) (is_in_stock_col new) of
        Inl e \<Rightarrow> Inl e
      | Inr st \<Rightarrow>
          Inr \<lparr>id_col = i, name_col = n, image_col = im, price_col = pr,
               is_in_stock_col = st\<rparr>)"

definition update_commit :: "plant \<Rightarrow> plant \<Rightarrow> store \<Rightarrow> exn + plant \<times> store" where
  "update_commit old new s =
     (case bind_changes old new of
        Inl e \<Rightarrow> Inl e
      | Inr bound \<Rightarrow>
          if id_col bound \<noteq> id_col old \<and> id_col bound \<in> set (map id_col s)
          then Inl (IntegrityError ''UNIQUE constraint failed: plants.id'')
          else Inr (bound,
                 map (\<lambda>q. if id_col q = id_col old then write_changes old bound q else q) s))"

text \<open>Modelled from the spec: \<^verbatim>\<open>db.session.delete(plant); db.session.commit()\<close>, the
  delete, one DELETE by primary key.\<close>

definition delete_commit :: "plant \<Rightarrow> store \<Rightarrow> store" where
  "delete_commit p s = filter (\<lambda>q. id_col q \<noteq> id_col p) s"

section \<open>Responses\<close>

datatype body = Json json | Text string

record response =
  status :: nat
  body :: body

definition jsonify :: "json \<Rightarrow> body" where
  "jsonify v = Json v"

definition make_response :: "body \<Rightarrow> nat \<Rightarrow> response" where
  "make_response b code = \<lparr>status = code, body = b\<rparr>"

text \<open>The handler registered for status 404.\<close>

definition not_found :: response where
  "not_found = make_response (jsonify (JObj [(''error'', JStr ''Plant not found'')])) 404"

definition errors_response :: "exn \<Rightarrow> response" where
  "errors_response e = make_response (jsonify (JObj [(''errors'', JArr [JStr (str_exn e)])])) 400"

section \<open>The handlers of \<^verbatim>\<open>server/app.py\<close>\<close>

text \<open>Each handler takes the table and returns its response with the table it leaves.\<close>

subsection \<open>Resource \<^verbatim>\<open>Plants\<close> at \<^verbatim>\<open>/plants\<close>\<close>

definition Plants_get :: "store \<Rightarrow> response \<times> store" where
  "Plants_get s = (make_response (jsonify (JArr (map to_dict (query_all s)))) 200, s)"

text \<open>The body of the \<^verbatim>\<open>try\<close> block of \<^verbatim>\<open>Plants.post\<close>; the keyword arguments are
  evaluated in the order they are written.\<close>

definition post_try :: "json option \<Rightarrow> store \<Rightarrow> exn + plant \<times> store" where
  "post_try req s =
     (case get_json req of Inl e \<Rightarrow> Inl e | Inr data \<Rightarrow>
      case getitem data ''name'' of Inl e \<Rightarrow> Inl e | Inr n \<Rightarrow>
      case getitem data ''image'' of Inl e \<Rightarrow> Inl e | Inr im \<Rightarrow>
      case getitem data ''price'' of Inl e \<Rightarrow> Inl e | Inr pr \<Rightarrow>
      case get_default data ''is_in_stock'' (JBool True) of Inl e \<Rightarrow> Inl e | Inr st \<Rightarrow>
        add_commit (Plant n im pr st) s)"

definition Plants_post :: "json option \<Rightarrow> store \<Rightarrow> response \<times> store" where
  "Plants_post req s =
     (case post_try req s of
        Inr (new_plant, s') \<Rightarrow> (make_response (jsonify (to_dict new_plant)) 201, s')
      | Inl e \<Rightarrow> (errors_response e, s))"

subsection \<open>Resource \<^verbatim>\<open>PlantByID\<close> at \<^verbatim>\<open>/plants/<int:id>\<close>\<close>

definition PlantByID_get :: "int \<Rightarrow> store \<Rightarrow> response \<times> store" where
  "PlantByID_get i s =
     (case query_first i s of
        Some plant \<Rightarrow> (make_response (jsonify (to_dict plant)) 200, s)
      | None \<Rightarrow> (make_response (jsonify (JObj [(''error'', JStr ''Plant not found'')])) 404, s))"

text \<open>The loop \<^verbatim>\<open>for key, value in data.items()\<close> of \<^verbatim>\<open>PlantByID.patch\<close>.\<close>

fun patch_loop :: "pydict \<Rightarrow> plant \<Rightarrow> exn + plant" where
  "patch_loop [] plant = Inr plant"
| "patch_loop ((key, v) # kvs) plant =
     (if hasattr key
      then (case setattr plant key v of Inl e \<Rightarrow> Inl e | Inr plant' \<Rightarrow> patch_loop kvs plant')
      else patch_loop kvs plant)"

text \<open>
  The call \<^verbatim>\<open>plant.to_dict()\<close> after the commit: when the loop has assigned a value
  to \<^verbatim>\<open>to_dict\<close>, the call finds that value in place of the method and raises.
\<close>

definition call_to_dict :: "pydict \<Rightarrow> plant \<Rightarrow> exn + json" where
  "call_to_dict kvs plant =
     (case dict_get kvs ''to_dict'' of
        None \<Rightarrow> Inr (to_dict plant)
      | Some v \<Rightarrow> Inl (TypeError (quoted (type_name v) @ '' object is not callable'')))"

text \<open>The body of the \<^verbatim>\<open>try\<close> block of \<^verbatim>\<open>PlantByID.patch\<close>, with the table
  it leaves: what the commit has written stays written when the last statement raises.\<close>

definition patch_try :: "plant \<Rightarrow> json option \<Rightarrow> store \<Rightarrow> (exn + json) \<times> store" where
  "patch_try plant req s =
     (case get_json req of Inl e \<Rightarrow> (Inl e, s) | Inr data \<Rightarrow>
      case items data of Inl e \<Rightarrow> (Inl e, s) | Inr kvs \<Rightarrow>
      case patch_loop kvs plant of Inl e \<Rightarrow> (Inl e, s) | Inr plant' \<Rightarrow>
      case update_commit plant plant' s of Inl e \<Rightarrow> (Inl e, s) | Inr (stored, s') \<Rightarrow>
        (call_to_dict kvs stored, s'))"

definition PlantByID_patch :: "int \<Rightarrow> json option \<Rightarrow> store \<Rightarrow> response \<times> store" where
  "PlantByID_patch i req s =
     (case query_first i s of
        None \<Rightarrow> (make_response (jsonify (JObj [(''error'', JStr ''Plant not found'')])) 404, s)
      | Some plant \<Rightarrow>
          (case patch_try plant req s of
             (Inr dict, s') \<Rightarrow> (make_response (jsonify dict) 200, s')
           | (Inl e, s') \<Rightarrow> (errors_response e, s')))"

definition PlantByID_delete :: "int \<Rightarrow> store \<Rightarrow> response \<times> store" where
  "PlantByID_delete i s =
     (case query_first i s of
        None \<Rightarrow> (make_response (jsonify (JObj [(''error'', JStr ''Plant not found'')])) 404, s)
      | Some plant \<Rightarrow> (make_response (Text '''') 204, delete_commit plant s))"

subsection \<open>Routing\<close>

datatype request =
    GET_plants
  | POST_plants "json option"
  | GET_plant int
  | PATCH_plant int "json option"
  | DELETE_plant int

fun handle :: "request \<Rightarrow> store \<Rightarrow> response \<times> store" where
  "handle GET_plants s = Plants_get s"
| "handle (POST_plants req) s = Plants_post req s"
| "handle (GET_plant i) s = PlantByID_get i s"
| "handle (PATCH_plant i req) s = PlantByID_patch i req s"
| "handle (DELETE_plant i) s = PlantByID_delete i s"

text \<open>The table after a sequence of requests, served one after the other.\<close>

fun run :: "request list \<Rightarrow> store \<Rightarrow> store" where
  "run [] s = s"
| "run (r # rs) s = run rs (snd (handle r s))"

subsection \<open>Identifiers the store cannot bind\<close>

text \<open>
  The route \<^verbatim>\<open>/plants/<int:id>\<close> admits every string of digits, but the store binds
  only signed 64-bit integers. The lookup
  \<^verbatim>\<open>Plant.query.filter_by(id=id).first()\<close> is the first statement of each handler
  of \<^verbatim>\<open>PlantByID\<close> and stands outside every \<^verbatim>\<open>try\<close>; for an identifier
  out of that range it raises, no handler catches it, and the hosting layer answers 500.
  The handlers above describe the identifiers the store can bind; \<open>serve\<close> is the
  service as a client meets it. Of the 500 answer only the status is meant.
\<close>

definition server_error :: response where
  "server_error =
     make_response (jsonify (JObj [(''message'', JStr ''Internal Server Error'')])) 500"

fun serve :: "request \<Rightarrow> store \<Rightarrow> response \<times> store" where
  "serve (GET_plant i) s =
     (if sqlite_int i then handle (GET_plant i) s else (server_error, s))"
| "serve (PATCH_plant i req) s =
     (if sqlite_int i then handle (PATCH_plant i req) s else (server_error, s))"
| "serve (DELETE_plant i) s =
     (if sqlite_int i then handle (DELETE_plant i) s else (server_error, s))"
| "serve r s = handle r s"

section \<open>Predicates on requests and example data\<close>

text \<open>A request body lacks a key when it is no JSON object at all (or no JSON), or an
  object in which the key is not bound.\<close>

fun lacks_key :: "json option \<Rightarrow> string \<Rightarrow> bool" where
  "lacks_key (Some (JObj d)) k = (k \<notin> set (map fst d))"
| "lacks_key req k = True"

text \<open>
  The effect of a PATCH in the words of the spec: every attribute whose name is a key of
  the body is overwritten with the supplied value, every other attribute stays. It is
  compared with the loop of the handler in \<open>patch_loop_storable\<close>.
\<close>

definition overwritten :: "pydict \<Rightarrow> string \<Rightarrow> json \<Rightarrow> json" where
  "overwritten d k old = (case dict_get d k of None \<Rightarrow> old | Some v \<Rightarrow> v)"

definition patched :: "pydict \<Rightarrow> plant \<Rightarrow> plant" where
  "patched d p =
     \<lparr>id_col = overwritten d ''id'' (id_col p),
      name_col = overwritten d ''name'' (name_col p),
      image_col = overwritten d ''image'' (image_col p),
      price_col = overwritten d ''price'' (price_col p),
      is_in_stock_col = overwritten d ''is_in_stock'' (is_in_stock_col p)\<rparr>"

text \<open>
  A submitted price is returned as it is when it is a float, or an integer that a double
  holds exactly; \<open>as_float\<close> is the float of such a number. An optional boolean is
  absent or a boolean.
\<close>

fun exact_number :: "json \<Rightarrow> bool" where
  "exact_number (JFloat q) = True"
| "exact_number (JInt k) = (\<bar>k\<bar> \<le> 2 ^ 53)"
| "exact_number v = False"

fun as_float :: "json \<Rightarrow> json" where
  "as_float (JInt k) = JFloat (of_int k)"
| "as_float v = v"

fun optional_bool :: "json option \<Rightarrow> bool" where
  "optional_bool None = True"
| "optional_bool (Some (JBool b)) = True"
| "optional_bool v = False"

text \<open>
  A binding of a request body is storable when it gives a string to \<^verbatim>\<open>name\<close> or
  \<^verbatim>\<open>image\<close>, a float to \<^verbatim>\<open>price\<close> or a boolean to \<^verbatim>\<open>is_in_stock\<close>: the
  column then holds the value as it is. A body is storable when each of its bindings
  either names no attribute of the entity or is storable.
\<close>

fun storable :: "string \<Rightarrow> json \<Rightarrow> bool" where
  "storable k (JStr x) = (k = ''name'' \<or> k = ''image'')"
| "storable k (JFloat q) = (k = ''price'')"
| "storable k (JBool b) = (k = ''is_in_stock'')"
| "storable k v = False"

definition storable_body :: "pydict \<Rightarrow> bool" where
  "storable_body d = list_all (\<lambda>kv. \<not> hasattr (fst kv) \<or> storable (fst kv) (snd kv)) d"

text \<open>The record of the example scenario, and a second one.\<close>

definition aloe :: plant where
  "aloe = \<lparr>id_col = JInt 1, name_col = JStr ''Aloe'', image_col = JStr ''aloe.jpg'',
            price_col = JInt 15, is_in_stock_col = JBool True\<rparr>"

definition fern :: plant where
  "fern = \<lparr>id_col = JInt 2, name_col = JStr ''Fern'', image_col = JStr ''fern.jpg'',
            price_col = JFloat (25 / 2), is_in_stock_col = JBool True\<rparr>"

section \<open>Lookups and identifiers\<close>

lemma query_first_None_iff: "query_first i s = None \<longleftrightarrow> JInt i \<notin> set (map id_col s)"
  by (force simp: query_first_def find_None_iff)

lemma query_first_Some_id: "query_first i s = Some p \<Longrightarrow> id_col p = JInt i \<and> p \<in> set s"
  by (auto simp: query_first_def find_Some_iff)

lemma dict_get_None_iff: "dict_get d k = None \<longleftrightarrow> k \<notin> set (map fst d)"
  by (simp add: dict_get_def map_of_eq_None_iff)

lemma fold_max_ge: "m \<in> set (n # ns) \<Longrightarrow> m \<le> fold max ns (n::int)"
proof -
  assume "m \<in> set (n # ns)"
  then have "m \<le> Max (set (n # ns))" by (intro Max_ge) simp_all
  then show ?thesis by (simp only: Max.set_eq_fold)
qed

lemma int_ids_mem: "p \<in> set s \<Longrightarrow> id_col p = JInt n \<Longrightarrow> n \<in> set (int_ids s)"
  by (induction s) (auto split: json.splits)

lemma next_id_fresh: "JInt (next_id s) \<notin> set (map id_col s)"
proof
  assume "JInt (next_id s) \<in> set (map id_col s)"
  then obtain p where p: "p \<in> set s" "id_col p = JInt (next_id s)" by auto
  then have mem: "next_id s \<in> set (int_ids s)" by (rule int_ids_mem)
  then obtain n ns where ids: "int_ids s = n # ns" by (cases "int_ids s") auto
  with mem have "next_id s \<le> fold max ns n" using fold_max_ge by metis
  with ids show False by (simp add: next_id_def)
qed

lemma find_append_None: "find P xs = None \<Longrightarrow> find P (xs @ ys) = find P ys"
  by (induction xs) (auto split: if_splits)

lemma query_first_filtered: "query_first i (filter (\<lambda>q. id_col q \<noteq> JInt i) s) = None"
  by (auto simp: query_first_None_iff)

lemma write_changes_same: "write_changes p p q = q"
  by (simp add: write_changes_def)

lemma write_changes_old: "write_changes old new old = new"
  by (simp add: write_changes_def)

section \<open>Binding values to columns\<close>

lemma shift_for_small: "m < 2 ^ 53 \<Longrightarrow> shift_for m = 0"
  by (subst shift_for.simps) simp

lemma shift_for_53: "shift_for (2 ^ 53) = 1"
proof -
  have "shift_for (2 ^ 53) = Suc (shift_for (2 ^ 53 div 2))"
    by (subst shift_for.simps) simp
  also have "(2 ^ 53 div 2 :: nat) = 2 ^ 52" by simp
  also have "shift_for (2 ^ 52) = 0" by (rule shift_for_small) simp
  finally show ?thesis by simp
qed

lemma sgn_abs_rat: "of_int (sgn k) * of_nat (nat \<bar>k\<bar>) = (of_int k :: rat)"
proof -
  have "of_nat (nat \<bar>k\<bar>) = (of_int \<bar>k\<bar> :: rat)" by simp
  then have "of_int (sgn k) * of_nat (nat \<bar>k\<bar>) = (of_int (sgn k * \<bar>k\<bar>) :: rat)"
    by (simp only: of_int_mult)
  then show ?thesis by (simp add: sgn_mult_abs)
qed

lemma double_of_int_exact:
  assumes "\<bar>k\<bar> \<le> 2 ^ 53"
  shows "double_of_int k = of_int k"
proof (cases "nat \<bar>k\<bar> < 2 ^ 53")
  case True
  then have "shift_for (nat \<bar>k\<bar>) = 0"
    by (rule shift_for_small)
  then have "double_of_int k = of_int (sgn k) * of_nat (nat \<bar>k\<bar>)"
    by (simp add: double_of_int_def Let_def)
  then show ?thesis by (simp only: sgn_abs_rat)
next
  case False
  with assms have m: "nat \<bar>k\<bar> = 2 ^ 53" by simp
  have "shift_for (2 ^ 53) = 1"
    by (rule shift_for_53)
  then have "double_of_int k = of_int (sgn k) * of_nat (nat \<bar>k\<bar>)"
    by (simp add: double_of_int_def Let_def m)
  then show ?thesis by (simp only: sgn_abs_rat)
qed

lemma bind_real_exact: "exact_number pr \<Longrightarrow> bind_real pr = Inr (as_float pr)"
proof (cases pr)
  case (JInt k)
  assume "exact_number pr"
  with JInt have k: "\<bar>k\<bar> \<le> 2 ^ 53" by simp
  then have "sqlite_int k" unfolding sqlite_int_def by simp linarith
  with k JInt show ?thesis by (simp add: double_of_int_exact)
qed simp_all

lemma bind_bool_optional:
  "optional_bool x \<Longrightarrow>
     bind_bool (case x of None \<Rightarrow> JBool True | Some v \<Rightarrow> v) =
       Inr (case x of None \<Rightarrow> JBool True | Some v \<Rightarrow> v)"
  by (cases x rule: optional_bool.cases) simp_all

lemma shift_for_cex: "shift_for 9007199254740993 = 1"
proof -
  have "shift_for 9007199254740993 = Suc (shift_for (9007199254740993 div 2))"
    by (subst shift_for.simps) simp
  also have "(9007199254740993 div 2 :: nat) = 4503599627370496" by simp
  also have "shift_for 4503599627370496 = 0" by (rule shift_for_small) simp
  finally show ?thesis by simp
qed

lemma double_of_int_cex: "double_of_int 9007199254740993 = 9007199254740992"
  by (simp add: double_of_int_def Let_def shift_for_cex)

section \<open>The update loop and its commit\<close>

lemma dict_get_Cons:
  "dict_get ((k, v) # kvs) a =
     (case dict_get kvs a of Some w \<Rightarrow> Some w | None \<Rightarrow> if a = k then Some v else None)"
  by (simp add: dict_get_def map_add_def split: option.split)

lemma dict_get_Nil: "dict_get [] a = None"
  by (simp add: dict_get_def)

lemma overwritten_Cons:
  "overwritten ((k, v) # kvs) a old = overwritten kvs a (if a = k then v else old)"
  by (simp add: overwritten_def dict_get_Cons split: option.split)

lemma overwritten_Nil: "overwritten [] a old = old"
  by (simp add: overwritten_def dict_get_def)

lemma hasattr_columns:
  "hasattr ''id''" "hasattr ''name''" "hasattr ''image''" "hasattr ''price''"
  "hasattr ''is_in_stock''" "hasattr ''to_dict''"
  by (simp_all add: hasattr_def columns_def other_attrs_def)

lemma storable_key: "storable k v \<Longrightarrow> k \<in> {''name'', ''image'', ''price'', ''is_in_stock''}"
  by (cases v) auto

lemma setattr_storable: "storable k v \<Longrightarrow> \<exists>p'. setattr p k v = Inr p'"
  by (auto simp: setattr_def dest: storable_key)






lemma storable_body_Cons:
  "storable_body ((k, v) # d) \<longleftrightarrow> (\<not> hasattr k \<or> storable k v) \<and> storable_body d"
  by (simp add: storable_body_def)

lemma storable_body_get:
  "storable_body d \<Longrightarrow> dict_get d k = Some v \<Longrightarrow> hasattr k \<Longrightarrow> storable k v"
proof (induction d)
  case Nil
  then show ?case by (simp add: dict_get_Nil)
next
  case (Cons kv d)
  obtain a w where kv: "kv = (a, w)" by (cases kv)
  from Cons show ?case
    by (auto simp: kv storable_body_Cons dict_get_Cons split: option.splits if_splits)
qed

lemma storable_body_no_key:
  assumes "storable_body d" and "hasattr k"
      and "k \<notin> {''name'', ''image'', ''price'', ''is_in_stock''}"
  shows "dict_get d k = None"
proof (cases "dict_get d k")
  case (Some v)
  from assms(1) Some assms(2) have "storable k v" by (rule storable_body_get)
  with assms(3) show ?thesis by (auto dest: storable_key)
qed simp

lemma patch_loop_storable: "storable_body d \<Longrightarrow> patch_loop d p = Inr (patched d p)"
proof (induction d arbitrary: p)
  case Nil
  show ?case by (simp add: patched_def overwritten_Nil)
next
  case (Cons kv d)
  obtain k v where kv: "kv = (k, v)" by (cases kv)
  from Cons.prems have d: "storable_body d" and h: "\<not> hasattr k \<or> storable k v"
    by (simp_all add: kv storable_body_Cons)
  show ?case
  proof (cases "hasattr k")
    case False
    then have "k \<noteq> ''id''" "k \<noteq> ''name''" "k \<noteq> ''image''" "k \<noteq> ''price''"
      "k \<noteq> ''is_in_stock''"
      using hasattr_columns by auto
    then have "patched ((k, v) # d) p = patched d p"
      by (simp add: patched_def overwritten_Cons)
    with False Cons.IH [OF d] show ?thesis by (simp add: kv)
  next
    case True
    with h have st: "storable k v" by simp
    then have k: "k \<in> {''name'', ''image'', ''price'', ''is_in_stock''}" by (rule storable_key)
    then obtain p' where p': "setattr p k v = Inr p'" "patched d p' = patched ((k, v) # d) p"
      by (auto simp: setattr_def patched_def overwritten_Cons)
    with True Cons.IH [OF d, of p'] show ?thesis by (simp add: kv)
  qed
qed

lemma bind_changed_ok:
  "new = old \<or> bind new = Inr new \<Longrightarrow> bind_changed bind old new = Inr new"
  by (auto simp: bind_changed_def)

lemma overwritten_storable:
  assumes "storable_body d" and "hasattr k"
  shows "overwritten d k old = old \<or> storable k (overwritten d k old)"
proof (cases "dict_get d k")
  case None
  then show ?thesis by (simp add: overwritten_def)
next
  case (Some v)
  from assms(1) Some assms(2) have "storable k v" by (rule storable_body_get)
  with Some show ?thesis by (simp add: overwritten_def)
qed

lemma storable_binds:
  "storable ''name'' v \<Longrightarrow> bind_text v = Inr v"
  "storable ''image'' v \<Longrightarrow> bind_text v = Inr v"
  "storable ''price'' v \<Longrightarrow> bind_real v = Inr v"
  "storable ''is_in_stock'' v \<Longrightarrow> bind_bool v = Inr v"
  by (cases v; simp)+

lemma bind_changes_storable:
  assumes "storable_body d"
  shows "bind_changes p (patched d p) = Inr (patched d p)"
proof -
  have i: "overwritten d ''id'' (id_col p) = id_col p"
    using storable_body_no_key [OF assms, of "''id''"]
    by (simp add: overwritten_def hasattr_columns)
  have n: "bind_changed bind_text (name_col p) (overwritten d ''name'' (name_col p)) =
      Inr (overwritten d ''name'' (name_col p))"
    using overwritten_storable [OF assms hasattr_columns(2), of "name_col p"]
    by (intro bind_changed_ok) (auto dest: storable_binds(1))
  have im: "bind_changed bind_text (image_col p) (overwritten d ''image'' (image_col p)) =
      Inr (overwritten d ''image'' (image_col p))"
    using overwritten_storable [OF assms hasattr_columns(3), of "image_col p"]
    by (intro bind_changed_ok) (auto dest: storable_binds(2))
  have pr: "bind_changed bind_real (price_col p) (overwritten d ''price'' (price_col p)) =
      Inr (overwritten d ''price'' (price_col p))"
    using overwritten_storable [OF assms hasattr_columns(4), of "price_col p"]
    by (intro bind_changed_ok) (auto dest: storable_binds(3))
  have st: "bind_changed bind_bool (is_in_stock_col p)
      (overwritten d ''is_in_stock'' (is_in_stock_col p)) =
      Inr (overwritten d ''is_in_stock'' (is_in_stock_col p))"
    using overwritten_storable [OF assms hasattr_columns(5), of "is_in_stock_col p"]
    by (intro bind_changed_ok) (auto dest: storable_binds(4))
  have i2: "bind_changed bind_id (id_col p) (overwritten d ''id'' (id_col p)) =
      Inr (overwritten d ''id'' (id_col p))"
    by (simp add: i bind_changed_def)
  show ?thesis
    by (simp add: bind_changes_def patched_def i2 n im pr st)
qed

lemma query_first_map_upd:
  assumes "query_first i s = Some p"
      and "id_col (f p) = JInt n"
      and "n = i \<or> JInt n \<notin> set (map id_col s)"
  shows "query_first n (map (\<lambda>q. if id_col q = JInt i then f q else q) s) = Some (f p)"
  using assms
proof (induction s)
  case Nil
  then show ?case by (simp add: query_first_def)
next
  case (Cons q qs)
  show ?case
  proof (cases "id_col q = JInt i")
    case True
    with Cons.prems show ?thesis by (simp add: query_first_def)
  next
    case False
    with Cons.prems have "id_col q \<noteq> JInt n" by auto
    moreover from False Cons.prems have "query_first i qs = Some p"
      by (simp add: query_first_def)
    moreover from Cons.prems have "n = i \<or> JInt n \<notin> set (map id_col qs)" by auto
    ultimately show ?thesis
      using False Cons.IH Cons.prems(2) by (simp add: query_first_def)
  qed
qed

lemma id_patched: "storable_body d \<Longrightarrow> id_col (patched d p) = id_col p"
  using storable_body_no_key [of d "''id''"]
  by (simp add: patched_def overwritten_def hasattr_columns)

lemma patch_try_storable:
  assumes "query_first i s = Some p" and "storable_body d"
  shows "patch_try p (Some (JObj d)) s =
           (Inr (to_dict (patched d p)),
            map (\<lambda>q. if id_col q = JInt i then write_changes p (patched d p) q else q) s)"
proof -
  from assms(1) have idp: "id_col p = JInt i" by (simp add: query_first_Some_id)
  have loop: "patch_loop d p = Inr (patched d p)"
    using assms(2) by (rule patch_loop_storable)
  have bound: "bind_changes p (patched d p) = Inr (patched d p)"
    using assms(2) by (rule bind_changes_storable)
  have same: "id_col (patched d p) = id_col p"
    using assms(2) by (rule id_patched)
  have commit: "update_commit p (patched d p) s =
      Inr (patched d p,
           map (\<lambda>q. if id_col q = JInt i then write_changes p (patched d p) q else q) s)"
    by (simp add: update_commit_def bound same idp)
  have "dict_get d ''to_dict'' = None"
    using assms(2) by (rule storable_body_no_key) (simp_all add: hasattr_columns)
  then have call: "call_to_dict d (patched d p) = Inr (to_dict (patched d p))"
    by (simp add: call_to_dict_def)
  show ?thesis
    by (simp add: patch_try_def get_json_def loop commit call)
qed

lemma patch_loop_keeps_id:
  "''id'' \<notin> set (map fst d) \<Longrightarrow> patch_loop d p = Inr p' \<Longrightarrow> id_col p' = id_col p"
proof (induction d arbitrary: p)
  case Nil
  then show ?case by simp
next
  case (Cons kv d)
  obtain k v where kv: "kv = (k, v)" by (cases kv)
  from Cons.prems have k: "k \<noteq> ''id''" and d: "''id'' \<notin> set (map fst d)"
    by (auto simp: kv)
  show ?case
  proof (cases "hasattr k")
    case False
    with Cons.prems(2) have "patch_loop d p = Inr p'" by (simp add: kv)
    with d show ?thesis by (rule Cons.IH)
  next
    case True
    with Cons.prems(2) obtain q where q: "setattr p k v = Inr q" "patch_loop d q = Inr p'"
      by (auto simp: kv split: sum.splits)
    from q(1) k have "id_col q = id_col p"
      by (auto simp: setattr_def split: if_splits)
    with Cons.IH [OF d q(2)] show ?thesis by simp
  qed
qed

lemma bind_changes_keeps_id:
  "bind_changes old new = Inr bound \<Longrightarrow> id_col new = id_col old \<Longrightarrow> id_col bound = id_col old"
  by (auto simp: bind_changes_def bind_changed_def split: sum.splits)

lemma update_commit_keeps_ids:
  assumes "update_commit old new s = Inr (stored, s')" and "id_col new = id_col old"
  shows "map id_col s' = map id_col s"
proof -
  from assms(1) obtain bound where b: "bind_changes old new = Inr bound"
    and s': "s' = map (\<lambda>q. if id_col q = id_col old then write_changes old bound q else q) s"
    by (auto simp: update_commit_def split: sum.splits if_splits)
  from b assms(2) have "id_col bound = id_col old" by (rule bind_changes_keeps_id)
  then have "id_col (write_changes old bound q) = id_col q" for q
    by (simp add: write_changes_def)
  then show ?thesis
    by (simp add: s' comp_def if_distrib [of id_col])
qed

lemma patch_try_keeps_ids:
  assumes "lacks_key req ''id''"
  shows "map id_col (snd (patch_try p req s)) = map id_col s"
proof (cases req)
  case None
  then show ?thesis by (simp add: patch_try_def get_json_def)
next
  case (Some data)
  show ?thesis
  proof (cases data)
    case (JObj d)
    with Some assms have d: "''id'' \<notin> set (map fst d)" by simp
    show ?thesis
    proof (cases "patch_loop d p")
      case (Inl e)
      then show ?thesis by (simp add: Some JObj patch_try_def get_json_def)
    next
      case (Inr p')
      with d have same: "id_col p' = id_col p" by (rule patch_loop_keeps_id)
      show ?thesis
      proof (cases "update_commit p p' s")
        case (Inl e)
        with Inr show ?thesis by (simp add: Some JObj patch_try_def get_json_def)
      next
        case Inr2: (Inr r)
        obtain stored s' where r: "r = (stored, s')" by (cases r)
        from Inr2 r same have "map id_col s' = map id_col s"
          by (intro update_commit_keeps_ids [of p p' s stored s']) simp_all
        with Inr Inr2 r show ?thesis by (simp add: Some JObj patch_try_def get_json_def)
      qed
    qed
  qed (simp_all add: Some patch_try_def get_json_def)
qed

section \<open>Unknown identifiers\<close>

text \<open>
  Claim C3 asks for 404, and never 400 or 500, for every identifier that is not in
  storage. The identifier 9223372036854775808 (2 to the power 63) is in no table and is
  admitted by the route; for it each of GET, PATCH and DELETE is answered with 500.
\<close>

theorem overflowing_id_gives_500:
  "JInt 9223372036854775808 \<notin> set (map id_col [aloe])
   \<and> status (fst (serve (GET_plant 9223372036854775808) [aloe])) = 500
   \<and> status (fst (serve (PATCH_plant 9223372036854775808 (Some (JObj []))) [aloe])) = 500
   \<and> status (fst (serve (DELETE_plant 9223372036854775808) [aloe])) = 500"
  by (simp add: sqlite_int_def server_error_def make_response_def aloe_def)

section \<open>Reading\<close>

text \<open>
  Claim C6. On every table, and so on every table reached from the empty one by a
  sequence of requests (creates and deletes among them), GET \<^verbatim>\<open>/plants\<close> answers 200
  with a JSON array that has as many elements as the table has rows; on the empty table
  the array is empty.
\<close>

theorem get_all_length:
  "(\<exists>xs. fst (Plants_get s) = \<lparr>status = 200, body = Json (JArr xs)\<rparr> \<and> length xs = length s)
   \<and> (\<exists>xs. fst (Plants_get (run rs [])) = \<lparr>status = 200, body = Json (JArr xs)\<rparr>
          \<and> length xs = length (run rs []))
   \<and> fst (Plants_get []) = \<lparr>status = 200, body = Json (JArr [])\<rparr>"
  by (simp add: Plants_get_def query_all_def make_response_def jsonify_def)

text \<open>
  Claim C8. GET \<^verbatim>\<open>/plants\<close> and GET \<^verbatim>\<open>/plants/i\<close> leave the table unchanged, for
  every table and every identifier: the rows and all their fields after the request are
  those before it.
\<close>

theorem gets_do_not_mutate: "snd (Plants_get s) = s \<and> snd (PlantByID_get i s) = s"
  by (simp add: Plants_get_def PlantByID_get_def split: option.split)

section \<open>Creating\<close>

text \<open>
  Claim C5. A POST \<^verbatim>\<open>/plants\<close> whose body lacks the key \<^verbatim>\<open>name\<close> answers 400 with
  a JSON object \<^verbatim>\<open>{"errors": [msg]}\<close>, whose array holds one message and so is not
  empty, and the table after the request is the table before it.
\<close>

theorem post_without_name_rejected:
  assumes "lacks_key req ''name''"
  shows "\<exists>msg. Plants_post req s =
           (\<lparr>status = 400, body = Json (JObj [(''errors'', JArr [JStr msg])])\<rparr>, s)"
proof -
  have "\<exists>e. post_try req s = Inl e"
  proof (cases req)
    case None
    then show ?thesis by (simp add: post_try_def get_json_def)
  next
    case (Some data)
    show ?thesis
    proof (cases data)
      case (JObj d)
      with Some assms have "dict_get d ''name'' = None"
        by (simp add: dict_get_None_iff)
      with Some JObj show ?thesis by (simp add: post_try_def get_json_def)
    qed (simp_all add: Some post_try_def get_json_def)
  qed
  then show ?thesis
    by (auto simp: Plants_post_def errors_response_def make_response_def jsonify_def)
qed

theorem post_without_name_rejected_witness:
  "lacks_key (Some (JObj [(''image'', JStr ''aloe.jpg''), (''price'', JInt 15)])) ''name''
   \<and> (\<exists>msg. Plants_post (Some (JObj [(''image'', JStr ''aloe.jpg''), (''price'', JInt 15)])) [aloe] =
         (\<lparr>status = 400, body = Json (JObj [(''errors'', JArr [JStr msg])])\<rparr>, [aloe]))"
proof -
  have h: "lacks_key (Some (JObj [(''image'', JStr ''aloe.jpg''), (''price'', JInt 15)])) ''name''"
    by simp
  show ?thesis
    using h post_without_name_rejected [OF h, of "[aloe]"] by simp
qed

text \<open>
  Claim C1, as the code has it. A valid creation payload is an object whose
  \<^verbatim>\<open>name\<close> and \<^verbatim>\<open>image\<close> are strings, whose \<^verbatim>\<open>price\<close> is a number and whose
  \<^verbatim>\<open>is_in_stock\<close> is a boolean or absent. When the price is a float, or an integer
  of magnitude at most 2 to the power 53, POST \<^verbatim>\<open>/plants\<close> answers 201 with a record
  that carries an id, and the GET of that id on the table the POST leaves answers 200 with
  the same record: name and image as submitted, the price as the float of the submitted
  number, and \<^verbatim>\<open>is_in_stock\<close> as submitted, or true when the payload does not bind
  it.
\<close>

theorem post_then_get:
  assumes "dict_get d ''name'' = Some (JStr n)"
      and "dict_get d ''image'' = Some (JStr im)"
      and "dict_get d ''price'' = Some pr"
      and "exact_number pr"
      and "optional_bool (dict_get d ''is_in_stock'')"
  shows "fst (Plants_post (Some (JObj d)) s) =
           \<lparr>status = 201,
              body = Json (JObj [(''id'', JInt (next_id s)), (''name'', JStr n),
                (''image'', JStr im), (''price'', as_float pr),
                (''is_in_stock'',
                   case dict_get d ''is_in_stock'' of None \<Rightarrow> JBool True | Some v \<Rightarrow> v)])\<rparr>
       \<and> fst (PlantByID_get (next_id s) (snd (Plants_post (Some (JObj d)) s))) =
           \<lparr>status = 200,
              body = Json (JObj [(''id'', JInt (next_id s)), (''name'', JStr n),
                (''image'', JStr im), (''price'', as_float pr),
                (''is_in_stock'',
                   case dict_get d ''is_in_stock'' of None \<Rightarrow> JBool True | Some v \<Rightarrow> v)])\<rparr>"
proof -
  define st where "st = (case dict_get d ''is_in_stock'' of None \<Rightarrow> JBool True | Some v \<Rightarrow> v)"
  define created where "created = \<lparr>id_col = JInt (next_id s), name_col = JStr n,
     image_col = JStr im, price_col = as_float pr, is_in_stock_col = st\<rparr>"
  have b1: "bind_real pr = Inr (as_float pr)"
    using assms(4) by (rule bind_real_exact)
  have b2: "bind_bool st = Inr st"
    unfolding st_def using assms(5) by (rule bind_bool_optional)
  have "add_commit (Plant (JStr n) (JStr im) pr st) s = Inr (created, s @ [created])"
    by (simp add: add_commit_def Plant_def b1 b2 created_def Let_def)
  with assms(1-3) have tr: "post_try (Some (JObj d)) s = Inr (created, s @ [created])"
    by (simp add: post_try_def get_json_def st_def)
  from tr have post: "Plants_post (Some (JObj d)) s =
      (make_response (jsonify (to_dict created)) 201, s @ [created])"
    by (simp add: Plants_post_def)
  have "find (\<lambda>p. id_col p = JInt (next_id s)) s = None"
    using next_id_fresh [of s] by (force simp: find_None_iff)
  then have "query_first (next_id s) (s @ [created]) = Some created"
    by (simp add: query_first_def find_append_None created_def)
  then have get: "PlantByID_get (next_id s) (s @ [created]) =
      (make_response (jsonify (to_dict created)) 200, s @ [created])"
    by (simp add: PlantByID_get_def)
  show ?thesis
    by (simp add: post get)
      (simp add: make_response_def jsonify_def to_dict_def created_def st_def)
qed

theorem post_then_get_witness:
  "dict_get [(''name'', JStr ''Aloe''), (''image'', JStr ''aloe.jpg''), (''price'', JInt 15)] ''name''
     = Some (JStr ''Aloe'')
   \<and> dict_get [(''name'', JStr ''Aloe''), (''image'', JStr ''aloe.jpg''), (''price'', JInt 15)] ''image''
     = Some (JStr ''aloe.jpg'')
   \<and> dict_get [(''name'', JStr ''Aloe''), (''image'', JStr ''aloe.jpg''), (''price'', JInt 15)] ''price''
     = Some (JInt 15)
   \<and> exact_number (JInt 15)
   \<and> optional_bool
       (dict_get [(''name'', JStr ''Aloe''), (''image'', JStr ''aloe.jpg''), (''price'', JInt 15)]
          ''is_in_stock'')
   \<and> fst (Plants_post
        (Some (JObj [(''name'', JStr ''Aloe''), (''image'', JStr ''aloe.jpg''), (''price'', JInt 15)])) []) =
       \<lparr>status = 201,
          body = Json (JObj [(''id'', JInt 1), (''name'', JStr ''Aloe''),
            (''image'', JStr ''aloe.jpg''), (''price'', JFloat 15), (''is_in_stock'', JBool True)])\<rparr>
   \<and> fst (PlantByID_get 1 (snd (Plants_post
        (Some (JObj [(''name'', JStr ''Aloe''), (''image'', JStr ''aloe.jpg''), (''price'', JInt 15)])) []))) =
       \<lparr>status = 200,
          body = Json (JObj [(''id'', JInt 1), (''name'', JStr ''Aloe''),
            (''image'', JStr ''aloe.jpg''), (''price'', JFloat 15), (''is_in_stock'', JBool True)])\<rparr>"
proof -
  let ?d = "[(''name'', JStr ''Aloe''), (''image'', JStr ''aloe.jpg''), (''price'', JInt 15)]"
  have h1: "dict_get ?d ''name'' = Some (JStr ''Aloe'')" by (simp add: dict_get_def)
  have h2: "dict_get ?d ''image'' = Some (JStr ''aloe.jpg'')" by (simp add: dict_get_def)
  have h3: "dict_get ?d ''price'' = Some (JInt 15)" by (simp add: dict_get_def)
  have h4: "exact_number (JInt 15)" by simp
  have n: "dict_get ?d ''is_in_stock'' = None" by (simp add: dict_get_def)
  have h5: "optional_bool (dict_get ?d ''is_in_stock'')" by (simp only: n optional_bool.simps)
  have i: "next_id [] = 1" by (simp add: next_id_def)
  have f: "as_float (JInt 15) = JFloat 15" by simp
  note t = post_then_get [OF h1 h2 h3 h4 h5, of "[]"]
  from t have c1: "fst (Plants_post (Some (JObj ?d)) []) =
       \<lparr>status = 201,
          body = Json (JObj [(''id'', JInt 1), (''name'', JStr ''Aloe''),
            (''image'', JStr ''aloe.jpg''), (''price'', JFloat 15), (''is_in_stock'', JBool True)])\<rparr>"
    by (simp only: n i f option.case)
  from t have c2: "fst (PlantByID_get 1 (snd (Plants_post (Some (JObj ?d)) []))) =
       \<lparr>status = 200,
          body = Json (JObj [(''id'', JInt 1), (''name'', JStr ''Aloe''),
            (''image'', JStr ''aloe.jpg''), (''price'', JFloat 15), (''is_in_stock'', JBool True)])\<rparr>"
    by (simp only: n i f option.case)
  from h1 h2 h3 h4 h5 c1 c2 show ?thesis by (intro conjI)
qed

text \<open>
  The claim as stated promises the submitted price for every number. The integer
  9007199254740993 (2 to the power 53, plus 1) is no double: the record is created, and
  both the POST and the following GET return the price 9007199254740992.
\<close>

theorem post_rounds_price_counterexample:
  "fst (Plants_post (Some (JObj [(''name'', JStr ''Aloe''), (''image'', JStr ''aloe.jpg''),
        (''price'', JInt 9007199254740993)])) []) =
       \<lparr>status = 201,
          body = Json (JObj [(''id'', JInt 1), (''name'', JStr ''Aloe''),
            (''image'', JStr ''aloe.jpg''), (''price'', JFloat 9007199254740992),
            (''is_in_stock'', JBool True)])\<rparr>
   \<and> fst (PlantByID_get 1 (snd (Plants_post (Some (JObj [(''name'', JStr ''Aloe''),
        (''image'', JStr ''aloe.jpg''), (''price'', JInt 9007199254740993)])) []))) =
       \<lparr>status = 200,
          body = Json (JObj [(''id'', JInt 1), (''name'', JStr ''Aloe''),
            (''image'', JStr ''aloe.jpg''), (''price'', JFloat 9007199254740992),
            (''is_in_stock'', JBool True)])\<rparr>
   \<and> (9007199254740992 :: rat) \<noteq> 9007199254740993"
  by (simp add: Plants_post_def post_try_def get_json_def dict_get_def add_commit_def Plant_def
      sqlite_int_def double_of_int_cex next_id_def PlantByID_get_def query_first_def
      make_response_def jsonify_def to_dict_def Let_def)

section \<open>Deleting\<close>

text \<open>
  Claim C7. For an identifier that a row of the table has, DELETE \<^verbatim>\<open>/plants/i\<close>
  answers 204 with an empty body, and GET \<^verbatim>\<open>/plants/i\<close> on the table the DELETE
  leaves answers 404.
\<close>

theorem delete_then_get:
  assumes "JInt i \<in> set (map id_col s)"
  shows "fst (PlantByID_delete i s) = \<lparr>status = 204, body = Text ''''\<rparr>
       \<and> fst (PlantByID_get i (snd (PlantByID_delete i s))) =
           \<lparr>status = 404, body = Json (JObj [(''error'', JStr ''Plant not found'')])\<rparr>"
proof -
  from assms obtain p where p: "query_first i s = Some p"
    using query_first_None_iff [of i s] by (cases "query_first i s") auto
  then have "id_col p = JInt i" by (simp add: query_first_Some_id)
  with p have del: "PlantByID_delete i s =
      (make_response (Text '''') 204, filter (\<lambda>q. id_col q \<noteq> JInt i) s)"
    by (simp add: PlantByID_delete_def delete_commit_def)
  show ?thesis
    by (simp add: del PlantByID_get_def query_first_filtered)
      (simp add: make_response_def jsonify_def)
qed

theorem delete_then_get_witness:
  "JInt 1 \<in> set (map id_col [aloe, fern])
   \<and> fst (PlantByID_delete 1 [aloe, fern]) = \<lparr>status = 204, body = Text ''''\<rparr>
   \<and> fst (PlantByID_get 1 (snd (PlantByID_delete 1 [aloe, fern]))) =
       \<lparr>status = 404, body = Json (JObj [(''error'', JStr ''Plant not found'')])\<rparr>"
proof -
  have h: "JInt 1 \<in> set (map id_col [aloe, fern])" by (simp add: aloe_def)
  show ?thesis
    using h delete_then_get [OF h] by simp
qed

section \<open>Updating\<close>

text \<open>
  Claim C10. For a record \<open>p\<close> found under the identifier \<open>i\<close>, PATCH
  \<^verbatim>\<open>/plants/i\<close> with the empty object \<^verbatim>\<open>{}\<close> answers 200 with the dictionary form of
  \<open>p\<close>, unchanged, and leaves the whole table, every field of every row, as it was.
\<close>

theorem patch_empty_object:
  assumes "query_first i s = Some p"
  shows "PlantByID_patch i (Some (JObj [])) s =
           (\<lparr>status = 200, body = Json (to_dict p)\<rparr>, s)"
proof -
  have m: "map (\<lambda>q. if id_col q = JInt i then write_changes p p q else q) s = s"
    by (intro map_idI) (simp add: write_changes_same)
  have pe: "patched [] p = p"
    by (simp add: patched_def overwritten_Nil)
  have sb: "storable_body []" by (simp add: storable_body_def)
  have "patch_try p (Some (JObj [])) s = (Inr (to_dict p), s)"
    using patch_try_storable [OF assms sb] by (simp only: pe m)
  with assms show ?thesis
    by (simp add: PlantByID_patch_def make_response_def jsonify_def)
qed

theorem patch_empty_object_witness:
  "query_first 2 [aloe, fern] = Some fern
   \<and> PlantByID_patch 2 (Some (JObj [])) [aloe, fern] =
       (\<lparr>status = 200, body = Json (to_dict fern)\<rparr>, [aloe, fern])"
proof -
  have h: "query_first 2 [aloe, fern] = Some fern"
    by (simp add: query_first_def aloe_def fern_def)
  show ?thesis
    using h patch_empty_object [OF h] by simp
qed

text \<open>
  Claim C4. For a record \<open>p\<close> found under the identifier \<open>i\<close>, PATCH
  \<^verbatim>\<open>/plants/i\<close> with the body \<^verbatim>\<open>{"is_in_stock": false}\<close> answers 200 with the
  dictionary form of \<open>p\<close> in which \<^verbatim>\<open>is_in_stock\<close> is false and id, name, image and
  price are those of \<open>p\<close>; the record then stored under \<open>i\<close> is \<open>p\<close> with only that
  field set, the table keeps its length, and every row with another identifier is
  unchanged at its place.
\<close>

theorem patch_is_in_stock_false:
  assumes "query_first i s = Some p"
  shows "fst (PlantByID_patch i (Some (JObj [(''is_in_stock'', JBool False)])) s) =
           \<lparr>status = 200,
              body = Json (JObj [(''id'', id_col p), (''name'', name_col p),
                (''image'', image_col p), (''price'', price_col p),
                (''is_in_stock'', JBool False)])\<rparr>
       \<and> query_first i (snd (PlantByID_patch i (Some (JObj [(''is_in_stock'', JBool False)])) s)) =
           Some (p\<lparr>is_in_stock_col := JBool False\<rparr>)
       \<and> length (snd (PlantByID_patch i (Some (JObj [(''is_in_stock'', JBool False)])) s)) = length s
       \<and> (\<forall>k < length s. id_col (s ! k) \<noteq> JInt i \<longrightarrow>
             snd (PlantByID_patch i (Some (JObj [(''is_in_stock'', JBool False)])) s) ! k = s ! k)"
proof -
  let ?d = "[(''is_in_stock'', JBool False)]"
  let ?p' = "p\<lparr>is_in_stock_col := JBool False\<rparr>"
  let ?s' = "map (\<lambda>q. if id_col q = JInt i then write_changes p ?p' q else q) s"
  from assms have idp: "id_col p = JInt i" by (simp add: query_first_Some_id)
  have loop: "patched ?d p = ?p'"
    by (simp add: patched_def overwritten_def dict_get_def)
  have acc: "storable_body ?d"
    by (simp add: storable_body_def)
  have res: "PlantByID_patch i (Some (JObj ?d)) s =
      (\<lparr>status = 200, body = Json (to_dict ?p')\<rparr>, ?s')"
    using assms patch_try_storable [OF assms acc]
    by (simp add: PlantByID_patch_def make_response_def jsonify_def loop)
  have "id_col (write_changes p ?p' p) = JInt i"
    by (simp add: write_changes_old idp)
  from query_first_map_upd [of i s p "write_changes p ?p'" i, OF assms this]
  have q: "query_first i ?s' = Some ?p'" by (simp add: write_changes_old)
  show ?thesis
    unfolding res by (simp add: q) (simp add: to_dict_def)
qed

theorem patch_is_in_stock_false_witness:
  "query_first 1 [aloe, fern] = Some aloe
   \<and> fst (PlantByID_patch 1 (Some (JObj [(''is_in_stock'', JBool False)])) [aloe, fern]) =
       \<lparr>status = 200,
          body = Json (JObj [(''id'', JInt 1), (''name'', JStr ''Aloe''),
            (''image'', JStr ''aloe.jpg''), (''price'', JInt 15), (''is_in_stock'', JBool False)])\<rparr>
   \<and> query_first 1 (snd (PlantByID_patch 1 (Some (JObj [(''is_in_stock'', JBool False)])) [aloe, fern])) =
       Some (aloe\<lparr>is_in_stock_col := JBool False\<rparr>)
   \<and> length (snd (PlantByID_patch 1 (Some (JObj [(''is_in_stock'', JBool False)])) [aloe, fern])) = 2
   \<and> snd (PlantByID_patch 1 (Some (JObj [(''is_in_stock'', JBool False)])) [aloe, fern]) ! 1 = fern"
proof -
  let ?s' = "snd (PlantByID_patch 1 (Some (JObj [(''is_in_stock'', JBool False)])) [aloe, fern])"
  have h: "query_first 1 [aloe, fern] = Some aloe"
    by (simp add: query_first_def aloe_def)
  note t = patch_is_in_stock_false [OF h]
  from t have "\<forall>k < length [aloe, fern]. id_col ([aloe, fern] ! k) \<noteq> JInt 1 \<longrightarrow>
      ?s' ! k = [aloe, fern] ! k"
    by blast
  then have "id_col ([aloe, fern] ! 1) \<noteq> JInt 1 \<longrightarrow> ?s' ! 1 = [aloe, fern] ! 1"
    by simp
  then have row: "?s' ! 1 = fern" by (simp add: fern_def)
  from t have resp: "fst (PlantByID_patch 1 (Some (JObj [(''is_in_stock'', JBool False)])) [aloe, fern]) =
       \<lparr>status = 200,
          body = Json (JObj [(''id'', JInt 1), (''name'', JStr ''Aloe''),
            (''image'', JStr ''aloe.jpg''), (''price'', JInt 15), (''is_in_stock'', JBool False)])\<rparr>"
    by (simp add: aloe_def)
  from t have len: "length ?s' = 2" by simp
  from t have look: "query_first 1 ?s' = Some (aloe\<lparr>is_in_stock_col := JBool False\<rparr>)" by blast
  from h resp look len row show ?thesis by blast
qed




section \<open>The identifier of a record\<close>

text \<open>
  Claim C2, as the code has it. No GET, POST or DELETE changes the id of a record, and
  neither does a PATCH whose body does not contain the key \<^verbatim>\<open>id\<close>: both GETs leave
  the table as it is, a POST only appends to it, a DELETE only removes the rows of the
  identifier it names, and after such a PATCH every row has the id it had before.
\<close>

theorem id_kept_without_id_key:
  assumes "lacks_key req ''id''"
  shows "snd (handle GET_plants s) = s
       \<and> snd (handle (GET_plant i) s) = s
       \<and> (\<exists>ps. snd (handle (POST_plants payload) s) = s @ ps)
       \<and> snd (handle (DELETE_plant i) s) = filter (\<lambda>q. id_col q \<noteq> JInt i) s
       \<and> map id_col (snd (handle (PATCH_plant i req) s)) = map id_col s"
proof -
  have get: "snd (handle GET_plants s) = s \<and> snd (handle (GET_plant i) s) = s"
    by (simp add: Plants_get_def PlantByID_get_def split: option.split)
  have post: "\<exists>ps. snd (handle (POST_plants payload) s) = s @ ps"
  proof (cases "post_try payload s")
    case (Inl e)
    then show ?thesis by (simp add: Plants_post_def)
  next
    case (Inr r)
    then have "\<exists>p'. r = (p', s @ [p'])"
      by (auto simp: post_try_def add_commit_def Let_def split: sum.splits)
    with Inr show ?thesis by (auto simp: Plants_post_def)
  qed
  have del: "snd (handle (DELETE_plant i) s) = filter (\<lambda>q. id_col q \<noteq> JInt i) s"
  proof (cases "query_first i s")
    case None
    then have "filter (\<lambda>q. id_col q \<noteq> JInt i) s = s"
      by (force simp: query_first_None_iff filter_id_conv)
    with None show ?thesis by (simp add: PlantByID_delete_def)
  next
    case (Some p)
    then have "id_col p = JInt i" by (simp add: query_first_Some_id)
    with Some show ?thesis by (simp add: PlantByID_delete_def delete_commit_def)
  qed
  have patch: "map id_col (snd (handle (PATCH_plant i req) s)) = map id_col s"
  proof (cases "query_first i s")
    case None
    then show ?thesis by (simp add: PlantByID_patch_def)
  next
    case (Some p)
    from assms have "map id_col (snd (patch_try p req s)) = map id_col s"
      by (rule patch_try_keeps_ids)
    with Some show ?thesis
      by (auto simp: PlantByID_patch_def split: prod.split sum.split)
  qed
  from get post del patch show ?thesis by blast
qed

theorem id_kept_without_id_key_witness:
  "lacks_key (Some (JObj [(''price'', JInt 20)])) ''id''
   \<and> snd (handle GET_plants [aloe, fern]) = [aloe, fern]
   \<and> snd (handle (GET_plant 2) [aloe, fern]) = [aloe, fern]
   \<and> (\<exists>ps. snd (handle (POST_plants (Some (JObj [(''name'', JStr ''Ivy'')]))) [aloe, fern]) =
         [aloe, fern] @ ps)
   \<and> snd (handle (DELETE_plant 2) [aloe, fern]) = filter (\<lambda>q. id_col q \<noteq> JInt 2) [aloe, fern]
   \<and> map id_col (snd (handle (PATCH_plant 2 (Some (JObj [(''price'', JInt 20)]))) [aloe, fern])) =
       map id_col [aloe, fern]"
proof -
  have h: "lacks_key (Some (JObj [(''price'', JInt 20)])) ''id''" by simp
  show ?thesis
    by (rule conjI [OF h id_kept_without_id_key [OF h]])
qed

text \<open>
  The claim as stated covers every PATCH body. With the row of \<open>aloe\<close> (id 1) as the
  only one, the body \<^verbatim>\<open>{"id": 99}\<close> sent to \<^verbatim>\<open>/plants/1\<close> is answered with 200 and
  the row is stored under the identifier 99.
\<close>

theorem patch_overwrites_id_counterexample:
  "map id_col [aloe] = [JInt 1]
   \<and> PlantByID_patch 1 (Some (JObj [(''id'', JInt 99)])) [aloe] =
       (\<lparr>status = 200, body = Json (to_dict (aloe\<lparr>id_col := JInt 99\<rparr>))\<rparr>,
        [aloe\<lparr>id_col := JInt 99\<rparr>])"
  by (simp add: PlantByID_patch_def query_first_def aloe_def patch_try_def get_json_def
      hasattr_def columns_def other_attrs_def setattr_def update_commit_def bind_changes_def
      bind_changed_def bind_int_def sqlite_int_def write_changes_def call_to_dict_def
      dict_get_def to_dict_def make_response_def jsonify_def)

end
